theory Spec2Isabelle
  imports Main "HOL-Library.Sublist"
begin

section \<open>Weather Shopper page objects: a shallow embedding\<close>

text \<open>
  The page objects of the repository (\<^verbatim>\<open>pages/home_page.py\<close>, \<^verbatim>\<open>pages/product_page.py\<close>,
  \<^verbatim>\<open>pages/cart_page.py\<close>, \<^verbatim>\<open>pages/payment_page.py\<close>) drive a browser through Selenium.
  The browser is the environment: what a page shows (texts of elements, which elements
  exist, whether a wait times out) is an input of each model function, and what the page
  object does to the browser (clicks, frame switches) is recorded in an explicit driver
  state that is passed through. A Python exception is a value \<open>Inl e\<close> of a sum type.

  Texts are \<^typ>\<open>string\<close>, that is lists of 8-bit characters: the model covers ASCII page
  texts. Python's \<^verbatim>\<open>int\<close> is \<^typ>\<open>int\<close>.
\<close>

subsection \<open>Exceptions\<close>

datatype exn =
    TimeoutException
  | NoSuchElementException
  | WebDriverException
  | IndexError
  | ValueError string
  | Exception string

subsection \<open>Python string and list primitives\<close>

text \<open>\<^verbatim>\<open>str.isdigit\<close> on an ASCII character.\<close>

definition isdigit :: "char \<Rightarrow> bool" where
  "isdigit c = (let n = (of_char c :: nat) in 48 \<le> n \<and> n \<le> 57)"

text \<open>
  \<^verbatim>\<open>str.isspace\<close> on an ASCII character: tab, line feed, vertical tab, form feed, carriage
  return, the four separators 0x1C to 0x1F, and the blank.
\<close>

definition isspace :: "char \<Rightarrow> bool" where
  "isspace c = (let n = (of_char c :: nat) in (9 \<le> n \<and> n \<le> 13) \<or> (28 \<le> n \<and> n \<le> 32))"

text \<open>\<^verbatim>\<open>s.strip()\<close>: leading and trailing whitespace removed.\<close>

definition strip :: "string \<Rightarrow> string" where
  "strip s = rev (dropWhile isspace (rev (dropWhile isspace s)))"

text \<open>\<^verbatim>\<open>s.lower()\<close> on ASCII text.\<close>

definition lower_char :: "char \<Rightarrow> char" where
  "lower_char c =
     (let n = (of_char c :: nat) in if 65 \<le> n \<and> n \<le> 90 then char_of (n + 32) else c)"

definition lower :: "string \<Rightarrow> string" where
  "lower s = map lower_char s"

text \<open>\<^verbatim>\<open>s.startswith(sub)\<close> and the substring test \<^verbatim>\<open>sub in s\<close>.\<close>

fun startswith :: "string \<Rightarrow> string \<Rightarrow> bool" where
  "startswith s [] = True"
| "startswith [] (c # sub) = False"
| "startswith (x # s) (c # sub) = (x = c \<and> startswith s sub)"

fun py_in :: "string \<Rightarrow> string \<Rightarrow> bool" where
  "py_in sub [] = (sub = [])"
| "py_in sub (x # s) = (startswith (x # s) sub \<or> py_in sub s)"

text \<open>\<^verbatim>\<open>s.split(sep)\<close> for a separator of one character: never an empty list.\<close>

fun split_on :: "char \<Rightarrow> string \<Rightarrow> string list" where
  "split_on sep [] = [[]]"
| "split_on sep (c # s) =
     (if c = sep then [] # split_on sep s
      else (case split_on sep s of [] \<Rightarrow> [[c]] | p # ps \<Rightarrow> (c # p) # ps))"

text \<open>\<^verbatim>\<open>xs[i]\<close> for a non-negative index: IndexError out of range.\<close>

definition index :: "'a list \<Rightarrow> nat \<Rightarrow> exn + 'a" where
  "index xs i = (if i < length xs then Inr (xs ! i) else Inl IndexError)"

text \<open>\<^verbatim>\<open>s.replace(',', '')\<close>.\<close>

definition remove_commas :: "string \<Rightarrow> string" where
  "remove_commas s = filter (\<lambda>c. c \<noteq> CHR '','') s"

text \<open>
  The value of a string of decimal digits, and \<^verbatim>\<open>int(s)\<close> for a string \<open>s\<close> that holds
  nothing but decimal digits (the only strings the page objects pass to \<^verbatim>\<open>int\<close>): the
  empty string raises ValueError. The interpreter's optional limit on the length of such a
  string is not modelled.
\<close>

definition decimal :: "string \<Rightarrow> int" where
  "decimal s = foldl (\<lambda>acc c. 10 * acc + (int (of_char c) - 48)) 0 s"

definition py_int :: "string \<Rightarrow> exn + int" where
  "py_int s = (if s = [] then Inl (ValueError ''invalid literal for int()'') else Inr (decimal s))"

text \<open>
  \<^verbatim>\<open>re.search(r'(\d+)', s)\<close>: the leftmost maximal run of digits of \<open>s\<close> (\<open>group(1)\<close> of the
  match), or no match.
\<close>

definition re_search_digits :: "string \<Rightarrow> string option" where
  "re_search_digits s =
     (let r = dropWhile (\<lambda>c. \<not> isdigit c) s
      in if r = [] then None else Some (takeWhile isdigit r))"

subsection \<open>Products (\<^verbatim>\<open>pages/product_page.py\<close>)\<close>

text \<open>
  A catalog card is a \<^verbatim>\<open>.col-4\<close> element: the texts of its \<^verbatim>\<open>p\<close> elements and its
  \<^verbatim>\<open>button\<close> elements, both in document order. \<open>'b\<close> is the type of button handles.
  A product is the dictionary that \<^verbatim>\<open>get_all_products\<close> builds.
\<close>

record 'b card =
  paragraphs :: "string list"
  buttons :: "'b list"

record 'b product =
  name :: string
  price :: int
  element :: "'b card"
  add_to_cart_button :: 'b

text \<open>
  \<^verbatim>\<open>filter_products_by_ingredient\<close>. A tag that contains \<^verbatim>\<open>SPF\<close> is split at the hyphens and
  the piece of index 1 is the SPF number; the products whose name contains
  \<^verbatim>\<open>SPF-<number>\<close> or \<^verbatim>\<open>SPF <number>\<close> are kept, in order. Any other tag is compared
  case-insensitively.
\<close>

definition filter_products_by_ingredient ::
  "'b product list \<Rightarrow> string \<Rightarrow> exn + 'b product list" where
  "filter_products_by_ingredient products ingredient =
     (if py_in ''SPF'' ingredient then
        (case index (split_on CHR ''-'' ingredient) 1 of
           Inl e \<Rightarrow> Inl e
         | Inr spf_number \<Rightarrow>
             Inr (filter (\<lambda>product. py_in (''SPF-'' @ spf_number) (name product)
                                  \<or> py_in (''SPF '' @ spf_number) (name product)) products))
      else
        Inr (filter (\<lambda>product. py_in (lower ingredient) (lower (name product))) products))"

text \<open>
  \<^verbatim>\<open>elem.find_element(By.TAG_NAME, "button")\<close>: the first button of the card, or
  NoSuchElementException.
\<close>

definition find_button :: "'b card \<Rightarrow> exn + 'b" where
  "find_button elem = (case buttons elem of [] \<Rightarrow> Inl NoSuchElementException | b # _ \<Rightarrow> Inr b)"

text \<open>The price label of a card: the text of its first paragraph that contains \<^verbatim>\<open>Price\<close>.\<close>

definition find_price_text :: "string list \<Rightarrow> string option" where
  "find_price_text ps = List.find (\<lambda>p. py_in ''Price'' p) ps"

text \<open>
  The body of the \<^verbatim>\<open>try\<close> block of \<^verbatim>\<open>get_all_products\<close> for one card: \<open>Inr None\<close> is
  \<^verbatim>\<open>continue\<close>, \<open>Inl e\<close> an exception (ValueError from \<^verbatim>\<open>int('')\<close> when the label has no
  digit, NoSuchElementException when the card has no button). The price is \<^verbatim>\<open>int\<close> of
  all the digit characters of the label, joined.
\<close>

definition parse_card :: "'b card \<Rightarrow> exn + 'b product option" where
  "parse_card elem =
     (case paragraphs elem of
        [] \<Rightarrow> Inr None
      | p0 # _ \<Rightarrow>
          (case find_price_text (paragraphs elem) of
             None \<Rightarrow> Inr None
           | Some price_text \<Rightarrow>
               if price_text = [] then Inr None
               else
                 (case py_int (filter isdigit price_text) of
                    Inl e \<Rightarrow> Inl e
                  | Inr price_value \<Rightarrow>
                      (case find_button elem of
                         Inl e \<Rightarrow> Inl e
                       | Inr add_button \<Rightarrow>
                           Inr (Some \<lparr>name = strip p0, price = price_value, element = elem,
                                      add_to_cart_button = add_button\<rparr>)))))"

text \<open>
  The loop over the cards: a product is appended when the body yields one; on
  \<^verbatim>\<open>continue\<close> and on any exception (\<^verbatim>\<open>except Exception: continue\<close>) the card is skipped.
\<close>

fun get_all_products_loop :: "'b card list \<Rightarrow> 'b product list \<Rightarrow> 'b product list" where
  "get_all_products_loop [] all_products = all_products"
| "get_all_products_loop (elem # rest) all_products =
     (case parse_card elem of
        Inr (Some product) \<Rightarrow> get_all_products_loop rest (all_products @ [product])
      | Inr None \<Rightarrow> get_all_products_loop rest all_products
      | Inl e \<Rightarrow> get_all_products_loop rest all_products)"

text \<open>
  \<^verbatim>\<open>get_all_products\<close> on a page given by its \<^verbatim>\<open>.col-4\<close> cards: the wait for the presence of
  a card times out on a page without cards.
\<close>

definition get_all_products :: "'b card list \<Rightarrow> exn + 'b product list" where
  "get_all_products page =
     (if page = [] then Inl TimeoutException else Inr (get_all_products_loop page []))"

text \<open>
  Python's \<^verbatim>\<open>min(xs, key=f)\<close> past the first element: the candidate is replaced only by an
  element whose key is strictly smaller.
\<close>

fun py_min_by :: "('a \<Rightarrow> int) \<Rightarrow> 'a \<Rightarrow> 'a list \<Rightarrow> 'a" where
  "py_min_by key best [] = best"
| "py_min_by key best (x # xs) = py_min_by key (if key x < key best then x else best) xs"

definition find_cheapest_product :: "'b product list \<Rightarrow> 'b product option" where
  "find_cheapest_product products =
     (case products of [] \<Rightarrow> None | p # ps \<Rightarrow> Some (py_min_by price p ps))"

definition select_moisturizer_products ::
  "'b card list \<Rightarrow> exn + ('b product option \<times> 'b product option)" where
  "select_moisturizer_products page =
     (case get_all_products page of
        Inl e \<Rightarrow> Inl e
      | Inr all_products \<Rightarrow>
          (case filter_products_by_ingredient all_products ''Aloe'' of
             Inl e \<Rightarrow> Inl e
           | Inr aloe_products \<Rightarrow>
               (case filter_products_by_ingredient all_products ''Almond'' of
                  Inl e \<Rightarrow> Inl e
                | Inr almond_products \<Rightarrow>
                    Inr (find_cheapest_product aloe_products,
                         find_cheapest_product almond_products))))"

definition select_sunscreen_products ::
  "'b card list \<Rightarrow> exn + ('b product option \<times> 'b product option)" where
  "select_sunscreen_products page =
     (case get_all_products page of
        Inl e \<Rightarrow> Inl e
      | Inr all_products \<Rightarrow>
          (case filter_products_by_ingredient all_products ''SPF-30'' of
             Inl e \<Rightarrow> Inl e
           | Inr spf30_products \<Rightarrow>
               (case filter_products_by_ingredient all_products ''SPF-50'' of
                  Inl e \<Rightarrow> Inl e
                | Inr spf50_products \<Rightarrow>
                    Inr (find_cheapest_product spf30_products,
                         find_cheapest_product spf50_products))))"

subsection \<open>The driver\<close>

text \<open>
  What the page objects do to the browser: the frame context that
  \<^verbatim>\<open>driver.switch_to\<close> selects, and the buttons clicked so far, oldest first.
\<close>

datatype frame_context = TopLevel | InFrame

record 'b driver =
  frame :: frame_context
  clicked :: "'b list"

text \<open>
  \<^verbatim>\<open>add_product_to_cart\<close>. \<open>clickable\<close> tells whether the wait for the button to be
  clickable succeeds; when it times out the exception is logged and raised again. The
  wait for the cart indicator that follows the click never fails the call.
\<close>

definition add_product_to_cart ::
  "('b \<Rightarrow> bool) \<Rightarrow> 'b product option \<Rightarrow> 'b driver \<Rightarrow> (exn + unit) \<times> 'b driver" where
  "add_product_to_cart clickable product d =
     (case product of
        None \<Rightarrow> (Inl (Exception ''Cannot add product to cart: None''), d)
      | Some p \<Rightarrow>
          if clickable (add_to_cart_button p)
          then (Inr (), d\<lparr>clicked := clicked d @ [add_to_cart_button p]\<rparr>)
          else (Inl TimeoutException, d))"

text \<open>
  \<^verbatim>\<open>add_selected_products_to_cart\<close>: the pair is selected for the category, the call raises
  when a side of the pair is missing, and only then the two products are added, the
  first before the second.
\<close>

definition add_selected_products_to_cart ::
  "('b \<Rightarrow> bool) \<Rightarrow> 'b card list \<Rightarrow> string \<Rightarrow> 'b driver
     \<Rightarrow> (exn + (('b product \<times> 'b product) \<times> int)) \<times> 'b driver" where
  "add_selected_products_to_cart clickable page product_category d =
     (case (if product_category = ''moisturizers'' then select_moisturizer_products page
            else if product_category = ''sunscreens'' then select_sunscreen_products page
            else Inl (ValueError (''Unknown product category: '' @ product_category))) of
        Inl e \<Rightarrow> (Inl e, d)
      | Inr (Some product1, Some product2) \<Rightarrow>
          (case add_product_to_cart clickable (Some product1) d of
             (Inl e, d1) \<Rightarrow> (Inl e, d1)
           | (Inr u, d1) \<Rightarrow>
               (case add_product_to_cart clickable (Some product2) d1 of
                  (Inl e, d2) \<Rightarrow> (Inl e, d2)
                | (Inr u, d2) \<Rightarrow>
                    (Inr ((product1, product2), price product1 + price product2), d2)))
      | Inr other \<Rightarrow>
          (Inl (Exception (''Could not find required products for '' @ product_category)), d))"

subsection \<open>Cart (\<^verbatim>\<open>pages/cart_page.py\<close>)\<close>

text \<open>
  A cart item is the dictionary that \<^verbatim>\<open>get_cart_items\<close> builds (keys \<^verbatim>\<open>name\<close>, \<^verbatim>\<open>price\<close>,
  \<^verbatim>\<open>price_text\<close>). A table row is read as the texts of its \<^verbatim>\<open>td\<close> cells, or as the
  exception that reading it raises.
\<close>

record cart_item =
  item_name :: string
  item_price :: int
  item_price_text :: string

type_synonym row = "exn + string list"

text \<open>
  The body of the \<^verbatim>\<open>try\<close> block for one row: \<open>None\<close> when nothing is appended (fewer than
  two cells, no digit in the price cell, no match of the regular expression, or an
  exception, which the loop catches).
\<close>

definition parse_row :: "row \<Rightarrow> cart_item option" where
  "parse_row row =
     (case row of
        Inl e \<Rightarrow> None
      | Inr cells \<Rightarrow>
          if 2 \<le> length cells then
            (let name_text = strip (cells ! 0); price_text = strip (cells ! 1) in
             if \<not> list_ex isdigit price_text then None
             else
               (case re_search_digits (remove_commas price_text) of
                  None \<Rightarrow> None
                | Some digits \<Rightarrow>
                    (case py_int digits of
                       Inl e \<Rightarrow> None
                     | Inr price_value \<Rightarrow>
                         Some \<lparr>item_name = name_text, item_price = price_value,
                               item_price_text = price_text\<rparr>)))
          else None)"

fun parse_rows :: "row list \<Rightarrow> cart_item list \<Rightarrow> cart_item list" where
  "parse_rows [] cart_items = cart_items"
| "parse_rows (row # rest) cart_items =
     (case parse_row row of
        Some item \<Rightarrow> parse_rows rest (cart_items @ [item])
      | None \<Rightarrow> parse_rows rest cart_items)"

text \<open>
  What the cart page shows when \<^verbatim>\<open>get_cart_items\<close> reads it: either reaching the table
  raises (navigation, the wait for the table), or the rows are those of the first selector
  of the list that finds any, and no rows when none does. Every exception is caught and
  answered with the empty list.
\<close>

datatype cart_view = CartUnavailable exn | CartRows "row list"

definition get_cart_items :: "cart_view \<Rightarrow> cart_item list" where
  "get_cart_items view =
     (case view of
        CartUnavailable e \<Rightarrow> []
      | CartRows rows \<Rightarrow> if rows = [] then [] else parse_rows rows [])"

text \<open>\<^verbatim>\<open>sum(item['price'] for item in items)\<close>, from 0 and left to right.\<close>

definition calculate_expected_total :: "cart_view \<Rightarrow> int" where
  "calculate_expected_total view =
     foldl (\<lambda>acc item. acc + item_price item) 0 (get_cart_items view)"

text \<open>
  \<^verbatim>\<open>get_displayed_total\<close>, from the outcome of reading the text of the \<^verbatim>\<open>#total\<close> element:
  first the body of the \<^verbatim>\<open>try\<close> block, then the handler, which answers every exception
  with 0.
\<close>

definition get_displayed_total_try :: "exn + string \<Rightarrow> exn + int" where
  "get_displayed_total_try total_element =
     (case total_element of
        Inl e \<Rightarrow> Inl e
      | Inr element_text \<Rightarrow>
          (case re_search_digits (remove_commas (strip element_text)) of
             Some digits \<Rightarrow> py_int digits
           | None \<Rightarrow> Inr 0))"

definition get_displayed_total :: "exn + string \<Rightarrow> exn + int" where
  "get_displayed_total total_element =
     (case get_displayed_total_try total_element of Inl e \<Rightarrow> Inr 0 | Inr total_value \<Rightarrow> Inr total_value)"

subsection \<open>Home page (\<^verbatim>\<open>pages/home_page.py\<close>)\<close>

text \<open>
  \<^verbatim>\<open>get_current_temperature\<close>, from the outcome of reading the text of the \<^verbatim>\<open>#temperature\<close>
  element: the first run of digits, as an integer (no sign is read). A failure to find
  the element is raised as it is; a text without digits raises \<^verbatim>\<open>Exception\<close>.
\<close>

definition get_current_temperature :: "exn + string \<Rightarrow> exn + int" where
  "get_current_temperature temperature_display =
     (case temperature_display of
        Inl e \<Rightarrow> Inl e
      | Inr temp_text \<Rightarrow>
          (case re_search_digits temp_text of
             None \<Rightarrow> Inl (Exception (''Failed to parse temperature from text '' @ temp_text))
           | Some digits \<Rightarrow>
               (case py_int digits of
                  Inl e \<Rightarrow> Inl (Exception (''Failed to parse temperature from text '' @ temp_text))
                | Inr temperature \<Rightarrow> Inr temperature)))"

definition should_buy_moisturizers :: "exn + string \<Rightarrow> exn + bool" where
  "should_buy_moisturizers temperature_display =
     (case get_current_temperature temperature_display of
        Inl e \<Rightarrow> Inl e | Inr temperature \<Rightarrow> Inr (temperature < 19))"

definition should_buy_sunscreens :: "exn + string \<Rightarrow> exn + bool" where
  "should_buy_sunscreens temperature_display =
     (case get_current_temperature temperature_display of
        Inl e \<Rightarrow> Inl e | Inr temperature \<Rightarrow> Inr (temperature > 34))"

definition is_moderate_temperature :: "exn + string \<Rightarrow> exn + bool" where
  "is_moderate_temperature temperature_display =
     (case get_current_temperature temperature_display of
        Inl e \<Rightarrow> Inl e | Inr temp \<Rightarrow> Inr (19 \<le> temp \<and> temp \<le> 34))"

datatype home_button = MOISTURIZERS_BUTTON | SUNSCREENS_BUTTON

text \<open>
  \<^verbatim>\<open>BasePage.click_element\<close>. \<open>click_result\<close> is the browser's answer to waiting for the
  element to be clickable and clicking it; a timeout of the wait is raised as
  \<^verbatim>\<open>Exception\<close>, any other exception as it is.
\<close>

definition click_element ::
  "('b \<Rightarrow> exn + unit) \<Rightarrow> 'b \<Rightarrow> 'b driver \<Rightarrow> (exn + unit) \<times> 'b driver" where
  "click_element click_result locator d =
     (case click_result locator of
        Inl e \<Rightarrow>
          (if e = TimeoutException then (Inl (Exception ''Element not clickable''), d)
           else (Inl e, d))
      | Inr u \<Rightarrow> (Inr (), d\<lparr>clicked := clicked d @ [locator]\<rparr>))"

text \<open>
  \<^verbatim>\<open>navigate_to_appropriate_category\<close>: the temperature shown does not change between the
  two readings.
\<close>

definition navigate_to_appropriate_category ::
  "(home_button \<Rightarrow> exn + unit) \<Rightarrow> exn + string \<Rightarrow> home_button driver
     \<Rightarrow> (exn + string) \<times> home_button driver" where
  "navigate_to_appropriate_category click_result temperature_display d =
     (case should_buy_moisturizers temperature_display of
        Inl e \<Rightarrow> (Inl e, d)
      | Inr moisturizers \<Rightarrow>
          if moisturizers then
            (case click_element click_result MOISTURIZERS_BUTTON d of
               (Inl e, d1) \<Rightarrow> (Inl e, d1)
             | (Inr u, d1) \<Rightarrow> (Inr ''moisturizers'', d1))
          else
            (case should_buy_sunscreens temperature_display of
               Inl e \<Rightarrow> (Inl e, d)
             | Inr sunscreens \<Rightarrow>
                 if sunscreens then
                   (case click_element click_result SUNSCREENS_BUTTON d of
                      (Inl e, d1) \<Rightarrow> (Inl e, d1)
                    | (Inr u, d1) \<Rightarrow> (Inr ''sunscreens'', d1))
                 else (Inr ''none'', d)))"

subsection \<open>Payment (\<^verbatim>\<open>pages/payment_page.py\<close>)\<close>

text \<open>
  How the browser answers during \<^verbatim>\<open>submit_payment_form\<close>: the wait for the Stripe frame
  (which switches into the frame when it succeeds), the search for the \<^verbatim>\<open>Payer\<close> button
  and for the generic submit button, and the click through JavaScript.
  \<^verbatim>\<open>driver.switch_to.default_content()\<close> selects the top-level context and does not fail.
\<close>

record 'b payment_env =
  frame_wait :: "exn + unit"
  find_payer_button :: "exn + 'b"
  find_submit_button :: "exn + 'b"
  js_click :: "'b \<Rightarrow> exn + unit"

definition switch_to_default_content :: "'b driver \<Rightarrow> 'b driver" where
  "switch_to_default_content d = d\<lparr>frame := TopLevel\<rparr>"

definition find_and_click ::
  "exn + 'b \<Rightarrow> ('b \<Rightarrow> exn + unit) \<Rightarrow> 'b driver \<Rightarrow> (exn + unit) \<times> 'b driver" where
  "find_and_click found click_result d =
     (case found of
        Inl e \<Rightarrow> (Inl e, d)
      | Inr button \<Rightarrow>
          (case click_result button of
             Inl e \<Rightarrow> (Inl e, d)
           | Inr u \<Rightarrow> (Inr (), d\<lparr>clicked := clicked d @ [button]\<rparr>)))"

text \<open>The body of the outer \<^verbatim>\<open>try\<close> block of \<^verbatim>\<open>submit_payment_form\<close>.\<close>

definition submit_payment_form_try ::
  "'b payment_env \<Rightarrow> 'b driver \<Rightarrow> (exn + unit) \<times> 'b driver" where
  "submit_payment_form_try env d =
     (case frame_wait env of
        Inl e \<Rightarrow> (Inl e, d)
      | Inr u \<Rightarrow>
          (case find_and_click (find_payer_button env) (js_click env) (d\<lparr>frame := InFrame\<rparr>) of
             (Inr u, d1) \<Rightarrow> (Inr (), switch_to_default_content d1)
           | (Inl e, d1) \<Rightarrow>
               (case find_and_click (find_submit_button env) (js_click env) d1 of
                  (Inr u, d2) \<Rightarrow> (Inr (), switch_to_default_content d2)
                | (Inl e2, d2) \<Rightarrow> (Inl e2, d2))))"

text \<open>The handler: the top-level context is selected and the exception raised again.\<close>

definition submit_payment_form ::
  "'b payment_env \<Rightarrow> 'b driver \<Rightarrow> (exn + unit) \<times> 'b driver" where
  "submit_payment_form env d =
     (case submit_payment_form_try env d of
        (Inl e, d1) \<Rightarrow> (Inl e, switch_to_default_content d1)
      | (Inr u, d1) \<Rightarrow> (Inr u, d1))"

text \<open>
  \<^verbatim>\<open>BasePage.is_element_present\<close>, from the outcome of its wait for presence: a timeout is
  the answer False, any other exception is raised.
\<close>

definition is_element_present :: "exn + unit \<Rightarrow> exn + bool" where
  "is_element_present wait_result =
     (case wait_result of
        Inr u \<Rightarrow> Inr True
      | Inl e \<Rightarrow> if e = TimeoutException then Inr False else Inl e)"

text \<open>
  One poll of the success condition of \<^verbatim>\<open>submit_payment\<close>, from the outcomes of the waits
  for the two success messages: \<^verbatim>\<open>is_element_present(SUCCESS_MESSAGE, 2) or
  is_element_present(ALT_SUCCESS_MESSAGE, 2)\<close>.
\<close>

definition success_poll :: "(exn + unit) \<times> (exn + unit) \<Rightarrow> exn + bool" where
  "success_poll waits =
     (case is_element_present (fst waits) of
        Inl e \<Rightarrow> Inl e
      | Inr present \<Rightarrow> if present then Inr True else is_element_present (snd waits))"

text \<open>
  Selenium's \<^verbatim>\<open>WebDriverWait(driver, timeout).until(condition)\<close>, given the outcomes of the
  polls that fit before the deadline: it returns at the first true poll, ignores
  NoSuchElementException, raises any other exception of a poll, and raises
  TimeoutException when the polls are used up.
\<close>

fun wait_until :: "(exn + bool) list \<Rightarrow> exn + unit" where
  "wait_until [] = Inl TimeoutException"
| "wait_until (Inr b # rest) = (if b then Inr () else wait_until rest)"
| "wait_until (Inl e # rest) = (if e = NoSuchElementException then wait_until rest else Inl e)"

text \<open>
  \<^verbatim>\<open>submit_payment\<close>: the form is submitted, then the success condition is polled; every
  exception, the timeout of the wait included, is answered with False.
\<close>

definition submit_payment ::
  "'b payment_env \<Rightarrow> ((exn + unit) \<times> (exn + unit)) list \<Rightarrow> 'b driver
     \<Rightarrow> (exn + bool) \<times> 'b driver" where
  "submit_payment env polls d =
     (case submit_payment_form env d of
        (Inl e, d1) \<Rightarrow> (Inr False, d1)
      | (Inr u, d1) \<Rightarrow>
          (case wait_until (map success_poll polls) of
             Inl e \<Rightarrow> (Inr False, d1)
           | Inr u2 \<Rightarrow> (Inr True, d1)))"

subsection \<open>Sample pages\<close>

text \<open>A card whose price label reads \<^verbatim>\<open>Price: 1,200\<close>.\<close>

definition card_1200 :: "nat card" where
  "card_1200 = \<lparr>paragraphs = [''Velvet Aloe cream'', ''Price: 1,200''], buttons = [7]\<rparr>"

text \<open>A card whose price label holds no digit.\<close>

definition card_unpriced :: "nat card" where
  "card_unpriced = \<lparr>paragraphs = [''Gift box'', ''Price: on request''], buttons = [8]\<rparr>"

text \<open>Three products, the last two at the same, lowest price.\<close>

definition product_500 :: "nat product" where
  "product_500 = \<lparr>name = ''Dawn SPF-50 milk'', price = 500,
                   element = \<lparr>paragraphs = [], buttons = [1]\<rparr>, add_to_cart_button = 1\<rparr>"

definition product_300_first :: "nat product" where
  "product_300_first = \<lparr>name = ''Noon SPF-50 gel'', price = 300,
                         element = \<lparr>paragraphs = [], buttons = [2]\<rparr>, add_to_cart_button = 2\<rparr>"

definition product_300_second :: "nat product" where
  "product_300_second = \<lparr>name = ''Dusk SPF-50 spray'', price = 300,
                          element = \<lparr>paragraphs = [], buttons = [3]\<rparr>, add_to_cart_button = 3\<rparr>"

text \<open>A driver that has done nothing yet.\<close>

definition fresh_driver :: "'b driver" where
  "fresh_driver = \<lparr>frame = TopLevel, clicked = []\<rparr>"

text \<open>
  A payment page where the frame is found, there is no \<^verbatim>\<open>Payer\<close> button, and the generic
  submit button (handle 1) is found and clicked.
\<close>

definition fallback_env :: "nat payment_env" where
  "fallback_env = \<lparr>frame_wait = Inr (), find_payer_button = Inl NoSuchElementException,
                    find_submit_button = Inr 1, js_click = (\<lambda>b. Inr ())\<rparr>"

text \<open>A sunscreen page with an SPF-30 product and no SPF-50 product.\<close>

definition spf30_only_page :: "nat card list" where
  "spf30_only_page =
     [\<lparr>paragraphs = [''Clear SPF-30 gel'', ''Price: Rs. 210''], buttons = [3]\<rparr>,
      \<lparr>paragraphs = [''Sunny SPF-300 lotion'', ''Price: 450''], buttons = [4]\<rparr>]"

text \<open>A sunscreen whose name carries the SPF value 300 and no SPF 30 marking.\<close>

definition spf300_product :: "nat product" where
  "spf300_product =
     \<lparr>name = ''Sunny SPF-300 lotion'', price = 450,
      element = \<lparr>paragraphs = [''Sunny SPF-300 lotion'', ''Price: 450''], buttons = [0]\<rparr>,
      add_to_cart_button = 0\<rparr>"

section \<open>Properties\<close>

subsection \<open>String primitives\<close>

lemma startswith_iff_prefix: "startswith s sub \<longleftrightarrow> prefix sub s"
  by (induction s sub rule: startswith.induct) auto

lemma py_in_iff_sublist: "py_in sub s \<longleftrightarrow> sublist sub s"
  by (induction s) (auto simp: startswith_iff_prefix sublist_Cons_right)

lemma split_on_not_Nil: "split_on sep s \<noteq> []"
  by (induction s) (auto split: list.splits)

lemma split_on_no_sep: "sep \<notin> set s \<Longrightarrow> split_on sep s = [s]"
  by (induction s) auto

lemma set_strip_subset: "set (strip s) \<subseteq> set s"
  by (auto simp: strip_def dest!: set_dropWhileD)

lemma re_search_digits_no_digit:
  "\<not> list_ex isdigit s \<Longrightarrow> re_search_digits s = None"
  by (simp add: re_search_digits_def list_ex_iff)

lemma re_search_digits_first_run:
  assumes "s = pre @ digits @ post" and "\<not> list_ex isdigit pre"
    and "digits \<noteq> []" and "list_all isdigit digits"
    and "post = [] \<or> \<not> isdigit (hd post)"
  shows "re_search_digits s = Some digits"
proof -
  obtain d ds where dig: "digits = d # ds" using assms(3) by (cases digits) auto
  have d: "isdigit d" using assms(4) dig by simp
  have "dropWhile (\<lambda>c. \<not> isdigit c) s = digits @ post"
    using assms(1,2) d dig by (simp add: list_ex_iff)
  moreover have "takeWhile isdigit (digits @ post) = digits"
  proof -
    have "takeWhile isdigit post = []" using assms(5) by (cases post) auto
    then show ?thesis using assms(4) by (simp add: list_all_iff)
  qed
  ultimately show ?thesis using dig by (simp add: re_search_digits_def)
qed

subsection \<open>Filtering by ingredient\<close>

text \<open>
  C1 (as amended). Filtering with the tag \<^verbatim>\<open>SPF-30\<close> returns, in catalog order, exactly the
  products whose name contains the literal substring \<^verbatim>\<open>SPF-30\<close> or \<^verbatim>\<open>SPF 30\<close>. The test is
  a plain substring test (\<open>py_in\<close> is \<open>sublist\<close>, see \<open>py_in_iff_sublist\<close>): nothing is
  required of the character that follows the number.
\<close>

theorem filter_spf30_substring:
  "filter_products_by_ingredient products ''SPF-30'' =
     Inr (filter (\<lambda>p. py_in ''SPF-30'' (name p) \<or> py_in ''SPF 30'' (name p)) products)"
  by (simp add: filter_products_by_ingredient_def index_def)

text \<open>
  C1 (as stated) fails: a product named \<^verbatim>\<open>Sunny SPF-300 lotion\<close> is returned for the tag
  \<^verbatim>\<open>SPF-30\<close>.
\<close>

theorem filter_spf30_returns_spf300:
  "filter_products_by_ingredient [spf300_product] ''SPF-30'' = Inr [spf300_product]"
  by (simp add: filter_products_by_ingredient_def index_def spf300_product_def)

text \<open>
  C10. A tag that contains \<^verbatim>\<open>SPF\<close> and no hyphen makes \<^verbatim>\<open>filter_products_by_ingredient\<close>
  raise IndexError, whatever the product list: the split has one piece only, and the
  piece of index 1 is read before any product is looked at.
\<close>

theorem filter_spf_without_hyphen_raises:
  assumes "py_in ''SPF'' ingredient" and "CHR ''-'' \<notin> set ingredient"
  shows "filter_products_by_ingredient products ingredient = Inl IndexError"
  using assms by (simp add: filter_products_by_ingredient_def index_def split_on_no_sep)

theorem filter_spf_without_hyphen_raises_witness:
  "py_in ''SPF'' ''SPF 30'' \<and> CHR ''-'' \<notin> set ''SPF 30''
   \<and> filter_products_by_ingredient [spf300_product] ''SPF 30'' = Inl IndexError"
proof -
  have h1: "py_in ''SPF'' ''SPF 30''" by simp
  have h2: "CHR ''-'' \<notin> set ''SPF 30''" by simp
  from filter_spf_without_hyphen_raises [OF h1 h2, of "[spf300_product]"] h1 h2
  show ?thesis by blast
qed

subsection \<open>Reading the catalog\<close>

lemma parse_card_Some:
  assumes "parse_card elem = Inr (Some product)"
  shows "\<exists>price_text. find_price_text (paragraphs elem) = Some price_text
           \<and> filter isdigit price_text \<noteq> []
           \<and> price product = decimal (filter isdigit price_text)
           \<and> element product = elem"
  using assms
  by (auto simp: parse_card_def py_int_def
           split: list.splits option.splits if_splits sum.splits)

lemma get_all_products_loop_set:
  "set (get_all_products_loop page acc) =
     set acc \<union> {product. \<exists>elem\<in>set page. parse_card elem = Inr (Some product)}"
  by (induction page arbitrary: acc) (auto split: sum.splits option.splits)

text \<open>
  C2 (as amended). Every product that \<^verbatim>\<open>get_all_products\<close> returns comes from a card of the
  page whose price label (the first paragraph that contains \<^verbatim>\<open>Price\<close>) holds a digit, and
  its price is the integer denoted by all the digit characters of that label, joined in
  order. A card whose price label holds no digit yields no product: it is skipped, and no
  default price is given to it.
\<close>

theorem get_all_products_price_all_digits:
  assumes "get_all_products page = Inr products"
  shows "(\<forall>product\<in>set products. \<exists>price_text.
            element product \<in> set page
            \<and> find_price_text (paragraphs (element product)) = Some price_text
            \<and> filter isdigit price_text \<noteq> []
            \<and> price product = decimal (filter isdigit price_text))
       \<and> (\<forall>elem\<in>set page. \<forall>price_text.
            find_price_text (paragraphs elem) = Some price_text
            \<and> filter isdigit price_text = []
            \<longrightarrow> (\<forall>product\<in>set products. element product \<noteq> elem))"
proof -
  have ps: "set products = {product. \<exists>elem\<in>set page. parse_card elem = Inr (Some product)}"
    using assms by (auto simp: get_all_products_def get_all_products_loop_set split: if_splits)
  have a: "\<exists>price_text. element product \<in> set page
            \<and> find_price_text (paragraphs (element product)) = Some price_text
            \<and> filter isdigit price_text \<noteq> []
            \<and> price product = decimal (filter isdigit price_text)"
    if "product \<in> set products" for product
  proof -
    from that ps obtain elem where e: "elem \<in> set page" "parse_card elem = Inr (Some product)"
      by blast
    from parse_card_Some [OF e(2)] e(1) show ?thesis by auto
  qed
  have b: "element product \<noteq> elem"
    if "find_price_text (paragraphs elem) = Some price_text" "filter isdigit price_text = []"
       "product \<in> set products" for elem price_text product
  proof
    assume eq: "element product = elem"
    from a [OF that(3)] eq that(1,2) show False by auto
  qed
  from a b show ?thesis by blast
qed

theorem get_all_products_price_all_digits_witness:
  "get_all_products [card_1200, card_unpriced] =
     Inr [\<lparr>name = ''Velvet Aloe cream'', price = 1200, element = card_1200,
           add_to_cart_button = 7\<rparr>]
   \<and> find_price_text (paragraphs card_1200) = Some ''Price: 1,200''
   \<and> decimal (filter isdigit ''Price: 1,200'') = 1200
   \<and> find_price_text (paragraphs card_unpriced) = Some ''Price: on request''
   \<and> filter isdigit ''Price: on request'' = []"
proof -
  let ?p = "\<lparr>name = ''Velvet Aloe cream'', price = 1200, element = card_1200,
             add_to_cart_button = 7\<rparr>"
  have g: "get_all_products [card_1200, card_unpriced] = Inr [?p]"
    by (simp add: get_all_products_def parse_card_def card_1200_def card_unpriced_def
          find_price_text_def py_int_def decimal_def isdigit_def find_button_def strip_def
          isspace_def)
  have f: "find_price_text (paragraphs card_1200) = Some ''Price: 1,200''"
    by (simp add: card_1200_def find_price_text_def)
  have u: "find_price_text (paragraphs card_unpriced) = Some ''Price: on request''"
    by (simp add: card_unpriced_def find_price_text_def)
  have n: "filter isdigit ''Price: on request'' = []" by (simp add: isdigit_def)
  from get_all_products_price_all_digits [OF g] f
  have "decimal (filter isdigit ''Price: 1,200'') = 1200" by simp
  with g f u n show ?thesis by blast
qed

text \<open>
  C2 (as stated) fails: for the label \<^verbatim>\<open>Price: 1,200\<close> the extracted price is 1200, while
  the first contiguous run of digits of the label denotes 1.
\<close>

theorem get_all_products_not_first_digit_run:
  "get_all_products [card_1200] =
     Inr [\<lparr>name = ''Velvet Aloe cream'', price = 1200, element = card_1200,
           add_to_cart_button = 7\<rparr>]
   \<and> find_price_text (paragraphs card_1200) = Some ''Price: 1,200''
   \<and> map_option decimal (re_search_digits ''Price: 1,200'') = Some 1"
  by (simp add: get_all_products_def parse_card_def card_1200_def find_price_text_def
        py_int_def decimal_def isdigit_def find_button_def strip_def isspace_def
        re_search_digits_def)

subsection \<open>The cheapest product\<close>

lemma py_min_by_split:
  "\<exists>pre post. best # xs = pre @ py_min_by key best xs # post
     \<and> (\<forall>q\<in>set pre. key (py_min_by key best xs) < key q)
     \<and> (\<forall>q\<in>set post. key (py_min_by key best xs) \<le> key q)"
proof -
  have gen: "\<And>pre mid best.
     (\<forall>q\<in>set pre. key best < key q) \<Longrightarrow> (\<forall>q\<in>set mid. key best \<le> key q) \<Longrightarrow>
     \<exists>pre' post. pre @ best # mid @ xs = pre' @ py_min_by key best xs # post
       \<and> (\<forall>q\<in>set pre'. key (py_min_by key best xs) < key q)
       \<and> (\<forall>q\<in>set post. key (py_min_by key best xs) \<le> key q)"
  proof (induction xs)
    case Nil
    then show ?case by auto
  next
    case (Cons x xs)
    show ?case
    proof (cases "key x < key best")
      case True
      have p: "\<forall>q\<in>set (pre @ best # mid). key x < key q"
        using Cons.prems True by fastforce
      from Cons.IH [of "pre @ best # mid" x "[]", OF p] True
      show ?thesis by simp
    next
      case False
      have m: "\<forall>q\<in>set (mid @ [x]). key best \<le> key q"
        using Cons.prems False by auto
      from Cons.IH [of pre best "mid @ [x]", OF Cons.prems(1) m] False
      show ?thesis by simp
    qed
  qed
  from gen [of "[]" best "[]"] show ?thesis by simp
qed

text \<open>
  C4. \<^verbatim>\<open>find_cheapest_product\<close> returns None on the empty list. On a non-empty list it
  returns the product at some index \<open>i\<close> whose price is at most the price of every product
  of the list and strictly below the price of every product before index \<open>i\<close>: a product
  of minimum price, and the first one in list order.
\<close>

theorem find_cheapest_product_first_minimum:
  "find_cheapest_product [] = None \<and>
   (products \<noteq> [] \<longrightarrow>
     (\<exists>i<length products.
        find_cheapest_product products = Some (products ! i)
        \<and> (\<forall>j<length products. price (products ! i) \<le> price (products ! j))
        \<and> (\<forall>j<i. price (products ! i) < price (products ! j))))"
proof (cases products)
  case Nil
  then show ?thesis by (simp add: find_cheapest_product_def)
next
  case (Cons p ps)
  define r where "r = py_min_by price p ps"
  from py_min_by_split [of p ps price] obtain pre post where
    sp: "p # ps = pre @ r # post"
    and lt: "\<forall>q\<in>set pre. price r < price q"
    and le: "\<forall>q\<in>set post. price r \<le> price q"
    unfolding r_def by blast
  have len: "length pre < length products" using Cons sp by simp
  have at: "products ! length pre = r" using Cons sp by simp
  have all: "\<forall>j<length products. price r \<le> price (products ! j)"
  proof (intro allI impI)
    fix j assume "j < length products"
    then have "products ! j \<in> set (pre @ r # post)" using Cons sp by (metis nth_mem)
    then show "price r \<le> price (products ! j)" using lt le by fastforce
  qed
  have before: "\<forall>j<length pre. price r < price (products ! j)"
  proof (intro allI impI)
    fix j assume j: "j < length pre"
    then have "products ! j = pre ! j" using Cons sp by (simp add: nth_append)
    then show "price r < price (products ! j)" using lt j by simp
  qed
  have "find_cheapest_product products = Some r"
    using Cons by (simp add: find_cheapest_product_def r_def)
  with len at all before show ?thesis by (auto simp: find_cheapest_product_def)
qed

theorem find_cheapest_product_first_minimum_witness:
  "[product_500, product_300_first, product_300_second] \<noteq> []
   \<and> find_cheapest_product [product_500, product_300_first, product_300_second]
       = Some product_300_first
   \<and> product_300_first \<noteq> product_300_second"
proof -
  let ?ps = "[product_500, product_300_first, product_300_second]"
  have ne: "?ps \<noteq> []" by simp
  from find_cheapest_product_first_minimum [of ?ps] ne obtain i where
    i: "i < length ?ps" and r: "find_cheapest_product ?ps = Some (?ps ! i)"
    and le: "\<forall>j<length ?ps. price (?ps ! i) \<le> price (?ps ! j)"
    and lt: "\<forall>j<i. price (?ps ! i) < price (?ps ! j)"
    by blast
  from i have "i = 0 \<or> i = 1 \<or> i = 2" by auto
  moreover have "i \<noteq> 0"
  proof
    assume "i = 0"
    with le have "1 < length ?ps \<longrightarrow> price (?ps ! 0) \<le> price (?ps ! 1)" by blast
    then have "price (?ps ! 0) \<le> price (?ps ! 1)" by simp
    then show False by (simp add: product_500_def product_300_first_def)
  qed
  moreover have "i \<noteq> 2"
  proof
    assume "i = 2"
    with lt have "(1::nat) < 2 \<longrightarrow> price (?ps ! 2) < price (?ps ! 1)" by blast
    then have "price (?ps ! 2) < price (?ps ! 1)" by simp
    then show False by (simp add: product_300_second_def product_300_first_def)
  qed
  ultimately have "i = 1" by blast
  with r have "find_cheapest_product ?ps = Some product_300_first" by simp
  moreover have "product_300_first \<noteq> product_300_second"
    by (simp add: product_300_first_def product_300_second_def)
  ultimately show ?thesis using ne by blast
qed

subsection \<open>Adding the selected pair\<close>

text \<open>
  C8. When the pair selected for the category (moisturizers or sunscreens) has a missing
  side, \<^verbatim>\<open>add_selected_products_to_cart\<close> raises the exception
  \<^verbatim>\<open>Could not find required products for <category>\<close> and the driver is unchanged: no
  button has been clicked, for either product.
\<close>

theorem add_selected_products_incomplete_pair:
  assumes "(product_category = ''moisturizers''
              \<and> select_moisturizer_products page = Inr (product1, product2))
         \<or> (product_category = ''sunscreens''
              \<and> select_sunscreen_products page = Inr (product1, product2))"
      and "product1 = None \<or> product2 = None"
  shows "add_selected_products_to_cart clickable page product_category d =
           (Inl (Exception (''Could not find required products for '' @ product_category)), d)"
  using assms
  by (auto simp: add_selected_products_to_cart_def split: option.splits)

theorem add_selected_products_incomplete_pair_witness:
  "select_sunscreen_products spf30_only_page =
     Inr (Some \<lparr>name = ''Clear SPF-30 gel'', price = 210,
                 element = \<lparr>paragraphs = [''Clear SPF-30 gel'', ''Price: Rs. 210''], buttons = [3]\<rparr>,
                 add_to_cart_button = 3\<rparr>, None)
   \<and> add_selected_products_to_cart (\<lambda>b. True) spf30_only_page ''sunscreens'' fresh_driver =
       (Inl (Exception ''Could not find required products for sunscreens''), fresh_driver)"
proof -
  have h: "select_sunscreen_products spf30_only_page =
     Inr (Some \<lparr>name = ''Clear SPF-30 gel'', price = 210,
                 element = \<lparr>paragraphs = [''Clear SPF-30 gel'', ''Price: Rs. 210''], buttons = [3]\<rparr>,
                 add_to_cart_button = 3\<rparr>, None)"
    by (simp add: select_sunscreen_products_def get_all_products_def parse_card_def
          spf30_only_page_def find_price_text_def py_int_def decimal_def isdigit_def
          find_button_def strip_def isspace_def filter_products_by_ingredient_def index_def
          find_cheapest_product_def)
  from add_selected_products_incomplete_pair [of "''sunscreens''" spf30_only_page _ None
      "\<lambda>b. True" fresh_driver] h
  have "add_selected_products_to_cart (\<lambda>b. True) spf30_only_page ''sunscreens'' fresh_driver =
       (Inl (Exception ''Could not find required products for sunscreens''), fresh_driver)"
    by simp
  with h show ?thesis by blast
qed

subsection \<open>The cart\<close>

lemma parse_rows_map_filter:
  "parse_rows rows acc = acc @ List.map_filter parse_row rows"
  by (induction rows arbitrary: acc) (auto simp: List.map_filter_simps split: option.splits)

lemma foldl_add_sum_list:
  "foldl (\<lambda>acc item. acc + f item) (a::int) xs = a + sum_list (map f xs)"
  by (induction xs arbitrary: a) auto

lemma get_cart_items_map_filter:
  "get_cart_items (CartRows rows) = List.map_filter parse_row rows"
  by (simp add: get_cart_items_def parse_rows_map_filter List.map_filter_simps)

lemma parse_row_no_digit:
  assumes "2 \<le> length cells" and "\<not> list_ex isdigit (cells ! 1)"
  shows "parse_row (Inr cells) = None"
proof -
  have "set (strip (cells ! 1)) \<subseteq> set (cells ! 1)"
    by (auto simp: strip_def dest!: set_dropWhileD)
  then have "\<not> list_ex isdigit (strip (cells ! 1))"
    using assms(2) by (auto simp: list_ex_iff)
  then show ?thesis using assms(1) by (simp add: parse_row_def)
qed

lemma parse_row_Some_digit:
  "parse_row row = Some item \<Longrightarrow> list_ex isdigit (item_price_text item)"
  by (auto simp: parse_row_def Let_def split: sum.splits if_splits option.splits)

text \<open>
  C5. A row (of at least two cells) whose price cell holds no digit is left out of the
  cart items: the items read with the row are the items read without it, and so is the
  expected total. The expected total is the sum of the prices of the items read, and the
  price text of every item read holds a digit.
\<close>

theorem cart_rows_without_digit_excluded:
  assumes "2 \<le> length cells" and "\<not> list_ex isdigit (cells ! 1)"
  shows "get_cart_items (CartRows (before @ Inr cells # after)) = get_cart_items (CartRows (before @ after))
       \<and> calculate_expected_total (CartRows (before @ Inr cells # after))
           = calculate_expected_total (CartRows (before @ after))
       \<and> calculate_expected_total view = sum_list (map item_price (get_cart_items view))
       \<and> list_all (\<lambda>item. list_ex isdigit (item_price_text item)) (get_cart_items view)"
proof -
  have a: "get_cart_items (CartRows (before @ Inr cells # after)) = get_cart_items (CartRows (before @ after))"
    using parse_row_no_digit [OF assms]
    by (simp add: get_cart_items_map_filter map_filter_def)
  have c: "calculate_expected_total v = sum_list (map item_price (get_cart_items v))" for v
    by (simp add: calculate_expected_total_def foldl_add_sum_list)
  have d: "list_all (\<lambda>item. list_ex isdigit (item_price_text item)) (get_cart_items view)"
  proof (cases view)
    case (CartUnavailable e)
    then show ?thesis by (simp add: get_cart_items_def)
  next
    case (CartRows rows)
    then show ?thesis
      by (auto simp: get_cart_items_map_filter list_all_iff map_filter_def dest: parse_row_Some_digit)
  qed
  from a c d show ?thesis by simp
qed

theorem cart_rows_without_digit_excluded_witness:
  "2 \<le> length [''Item'', ''Price'']
   \<and> \<not> list_ex isdigit ([''Item'', ''Price''] ! 1)
   \<and> get_cart_items (CartRows [Inr [''Aloe cream'', ''Rs. 1,100''], Inr [''Item'', ''Price''],
                                 Inr [''Almond oil'', ''200'']])
       = [\<lparr>item_name = ''Aloe cream'', item_price = 1100, item_price_text = ''Rs. 1,100''\<rparr>,
          \<lparr>item_name = ''Almond oil'', item_price = 200, item_price_text = ''200''\<rparr>]
   \<and> calculate_expected_total (CartRows [Inr [''Aloe cream'', ''Rs. 1,100''],
                                           Inr [''Item'', ''Price''], Inr [''Almond oil'', ''200'']])
       = 1300"
proof -
  have h1: "2 \<le> length [''Item'', ''Price'']" by simp
  have h2: "\<not> list_ex isdigit ([''Item'', ''Price''] ! 1)" by (simp add: isdigit_def)
  have two: "get_cart_items (CartRows [Inr [''Aloe cream'', ''Rs. 1,100''], Inr [''Almond oil'', ''200'']])
       = [\<lparr>item_name = ''Aloe cream'', item_price = 1100, item_price_text = ''Rs. 1,100''\<rparr>,
          \<lparr>item_name = ''Almond oil'', item_price = 200, item_price_text = ''200''\<rparr>]"
    by (simp add: get_cart_items_def parse_row_def strip_def isspace_def isdigit_def
          re_search_digits_def remove_commas_def py_int_def decimal_def)
  have total: "calculate_expected_total (CartRows [Inr [''Aloe cream'', ''Rs. 1,100''], Inr [''Almond oil'', ''200'']]) = 1300"
    by (simp add: calculate_expected_total_def two)
  from cart_rows_without_digit_excluded [OF h1 h2,
      of "[Inr [''Aloe cream'', ''Rs. 1,100'']]" "[Inr [''Almond oil'', ''200'']]"] two total h1 h2
  show ?thesis by simp
qed

text \<open>
  C9. \<^verbatim>\<open>get_displayed_total\<close> returns 0, and does not raise, when the total element cannot
  be read and when its text holds no digit. When the text, stripped and with its commas
  removed, is \<open>pre @ digits @ post\<close> with no digit in \<open>pre\<close>, a non-empty run of digits
  \<open>digits\<close>, and \<open>post\<close> empty or starting with a non-digit, it returns the integer that
  \<open>digits\<close> denotes.
\<close>

theorem get_displayed_total_zero_or_first_run:
  "get_displayed_total (Inl e) = Inr 0
   \<and> (\<not> list_ex isdigit element_text \<longrightarrow> get_displayed_total (Inr element_text) = Inr 0)
   \<and> (remove_commas (strip element_text) = pre @ digits @ post
        \<and> \<not> list_ex isdigit pre \<and> digits \<noteq> [] \<and> list_all isdigit digits
        \<and> (post = [] \<or> \<not> isdigit (hd post))
      \<longrightarrow> get_displayed_total (Inr element_text) = Inr (decimal digits))"
proof -
  have a: "get_displayed_total (Inl e) = Inr 0"
    by (simp add: get_displayed_total_def get_displayed_total_try_def)
  have b: "get_displayed_total (Inr element_text) = Inr 0" if "\<not> list_ex isdigit element_text"
  proof -
    have "set (remove_commas (strip element_text)) \<subseteq> set element_text"
      using set_strip_subset [of element_text] by (auto simp: remove_commas_def)
    then have "\<not> list_ex isdigit (remove_commas (strip element_text))"
      using that by (auto simp: list_ex_iff)
    then show ?thesis
      by (simp add: get_displayed_total_def get_displayed_total_try_def re_search_digits_no_digit)
  qed
  have c: "get_displayed_total (Inr element_text) = Inr (decimal digits)"
    if "remove_commas (strip element_text) = pre @ digits @ post"
       "\<not> list_ex isdigit pre" "digits \<noteq> []" "list_all isdigit digits"
       "post = [] \<or> \<not> isdigit (hd post)"
    using re_search_digits_first_run [OF that] that(3)
    by (simp add: get_displayed_total_def get_displayed_total_try_def py_int_def)
  from a b c show ?thesis by blast
qed

theorem get_displayed_total_zero_or_first_run_witness:
  "get_displayed_total (Inl (Exception ''Element not found'')) = Inr 0
   \<and> get_displayed_total (Inr ''Total: n/a'') = Inr 0
   \<and> get_displayed_total (Inr ''Total: Rupees 1,234 (2 items) '') = Inr 1234"
proof -
  have n: "\<not> list_ex isdigit ''Total: n/a''" by (simp add: isdigit_def)
  have s: "remove_commas (strip ''Total: Rupees 1,234 (2 items) '')
             = ''Total: Rupees '' @ ''1234'' @ '' (2 items)''"
    by (simp add: remove_commas_def strip_def isspace_def)
  have p: "\<not> list_ex isdigit ''Total: Rupees ''" by (simp add: isdigit_def)
  have d: "list_all isdigit ''1234''" by (simp add: isdigit_def)
  have q: "\<not> isdigit (hd '' (2 items)'')" by (simp add: isdigit_def)
  have v: "decimal ''1234'' = 1234" by (simp add: decimal_def)
  from get_displayed_total_zero_or_first_run [of "Exception ''Element not found''" "''Total: n/a''"] n
  have a: "get_displayed_total (Inl (Exception ''Element not found'')) = Inr 0"
    and b: "get_displayed_total (Inr ''Total: n/a'') = Inr 0" by simp_all
  from get_displayed_total_zero_or_first_run [of _ "''Total: Rupees 1,234 (2 items) ''"
      "''Total: Rupees ''" "''1234''" "'' (2 items)''"] s p d q v
  have c: "get_displayed_total (Inr ''Total: Rupees 1,234 (2 items) '') = Inr 1234" by simp
  from a b c show ?thesis by blast
qed

subsection \<open>The category decision\<close>

text \<open>
  On the reading \<open>t\<close> that \<^verbatim>\<open>get_current_temperature\<close> returns, the thresholds are those of
  the docstrings: \<^verbatim>\<open>should_buy_moisturizers\<close> is \<open>t < 19\<close>, \<^verbatim>\<open>should_buy_sunscreens\<close> is
  \<open>t > 34\<close>, \<^verbatim>\<open>is_moderate_temperature\<close> is \<open>19 \<le> t \<le> 34\<close>, and
  \<^verbatim>\<open>navigate_to_appropriate_category\<close> returns \<^verbatim>\<open>moisturizers\<close> if and only if \<open>t < 19\<close> (the
  moisturizers button being clickable), \<^verbatim>\<open>sunscreens\<close> if and only if \<open>t > 34\<close> (the
  sunscreens button being clickable), and \<^verbatim>\<open>none\<close> if and only if \<open>19 \<le> t \<le> 34\<close>. The
  readings 18, 19, 34 and 35 are evaluated after it.
\<close>

lemma category_decision_on_reading:
  assumes "get_current_temperature temperature_display = Inr t"
  shows "should_buy_moisturizers temperature_display = Inr (t < 19)
       \<and> should_buy_sunscreens temperature_display = Inr (t > 34)
       \<and> is_moderate_temperature temperature_display = Inr (19 \<le> t \<and> t \<le> 34)
       \<and> (click_result MOISTURIZERS_BUTTON = Inr () \<longrightarrow>
            (fst (navigate_to_appropriate_category click_result temperature_display d)
               = Inr ''moisturizers'' \<longleftrightarrow> t < 19))
       \<and> (click_result SUNSCREENS_BUTTON = Inr () \<longrightarrow>
            (fst (navigate_to_appropriate_category click_result temperature_display d)
               = Inr ''sunscreens'' \<longleftrightarrow> t > 34))
       \<and> (fst (navigate_to_appropriate_category click_result temperature_display d)
               = Inr ''none'' \<longleftrightarrow> 19 \<le> t \<and> t \<le> 34)"
  using assms
  by (auto simp: should_buy_moisturizers_def should_buy_sunscreens_def
        is_moderate_temperature_def navigate_to_appropriate_category_def click_element_def
        split: sum.splits prod.splits if_splits)

lemma category_decision_boundaries:
  "get_current_temperature (Inr ''18 C'') = Inr 18
   \<and> fst (navigate_to_appropriate_category (\<lambda>b. Inr ()) (Inr ''18 C'') fresh_driver) = Inr ''moisturizers''
   \<and> get_current_temperature (Inr ''19 C'') = Inr 19
   \<and> fst (navigate_to_appropriate_category (\<lambda>b. Inr ()) (Inr ''19 C'') fresh_driver) = Inr ''none''
   \<and> get_current_temperature (Inr ''34 C'') = Inr 34
   \<and> fst (navigate_to_appropriate_category (\<lambda>b. Inr ()) (Inr ''34 C'') fresh_driver) = Inr ''none''
   \<and> get_current_temperature (Inr ''35 C'') = Inr 35
   \<and> fst (navigate_to_appropriate_category (\<lambda>b. Inr ()) (Inr ''35 C'') fresh_driver) = Inr ''sunscreens''"
proof -
  have h18: "get_current_temperature (Inr ''18 C'') = Inr 18"
    by (simp add: get_current_temperature_def re_search_digits_def isdigit_def py_int_def decimal_def)
  have h19: "get_current_temperature (Inr ''19 C'') = Inr 19"
    by (simp add: get_current_temperature_def re_search_digits_def isdigit_def py_int_def decimal_def)
  have h34: "get_current_temperature (Inr ''34 C'') = Inr 34"
    by (simp add: get_current_temperature_def re_search_digits_def isdigit_def py_int_def decimal_def)
  have h35: "get_current_temperature (Inr ''35 C'') = Inr 35"
    by (simp add: get_current_temperature_def re_search_digits_def isdigit_def py_int_def decimal_def)
  from category_decision_on_reading [OF h18, of "\<lambda>b. Inr ()" fresh_driver]
  have r18: "fst (navigate_to_appropriate_category (\<lambda>b. Inr ()) (Inr ''18 C'') fresh_driver) = Inr ''moisturizers''"
    by simp
  from category_decision_on_reading [OF h19, of "\<lambda>b. Inr ()" fresh_driver]
  have r19: "fst (navigate_to_appropriate_category (\<lambda>b. Inr ()) (Inr ''19 C'') fresh_driver) = Inr ''none''"
    by simp
  from category_decision_on_reading [OF h34, of "\<lambda>b. Inr ()" fresh_driver]
  have r34: "fst (navigate_to_appropriate_category (\<lambda>b. Inr ()) (Inr ''34 C'') fresh_driver) = Inr ''none''"
    by simp
  from category_decision_on_reading [OF h35, of "\<lambda>b. Inr ()" fresh_driver]
  have r35: "fst (navigate_to_appropriate_category (\<lambda>b. Inr ()) (Inr ''35 C'') fresh_driver) = Inr ''sunscreens''"
    by simp
  from h18 r18 h19 r19 h34 r34 h35 r35 show ?thesis by blast
qed

text \<open>
  The reading is never negative: \<^verbatim>\<open>re.search(r'\d+', temp_text)\<close> matches digits only, so a
  minus sign in front of the displayed temperature is dropped.
\<close>

lemma isdigit_value_nonneg: "isdigit c \<Longrightarrow> 0 \<le> int (of_char c) - 48"
  by (simp add: isdigit_def Let_def)

lemma foldl_decimal_nonneg:
  "0 \<le> a \<Longrightarrow> list_all isdigit s \<Longrightarrow>
     0 \<le> foldl (\<lambda>acc c. 10 * acc + (int (of_char c) - 48)) a s"
proof (induction s arbitrary: a)
  case Nil
  then show ?case by simp
next
  case (Cons c s)
  from Cons.prems have "0 \<le> 10 * a + (int (of_char c) - 48)"
    using isdigit_value_nonneg [of c] by simp
  with Cons show ?case by simp
qed

lemma decimal_nonneg: "list_all isdigit s \<Longrightarrow> 0 \<le> decimal s"
  by (simp add: decimal_def foldl_decimal_nonneg)

lemma re_search_digits_all_digits:
  "re_search_digits s = Some digits \<Longrightarrow> list_all isdigit digits"
  by (auto simp: re_search_digits_def Let_def list_all_iff split: if_splits dest: set_takeWhileD)

lemma get_current_temperature_nonneg:
  "get_current_temperature temperature_display = Inr t \<Longrightarrow> 0 \<le> t"
  by (auto simp: get_current_temperature_def py_int_def
        split: sum.splits option.splits if_splits
        dest!: re_search_digits_all_digits decimal_nonneg)

text \<open>
  C3. The claim, that for every integer temperature the decision is moisturizers if and
  only if the temperature is below 19, sunscreens if and only if it is above 34 and none
  otherwise, fails on the code for negative temperatures. On a page that displays
  \<^verbatim>\<open>-20 C\<close> the reading is 20, \<^verbatim>\<open>should_buy_moisturizers\<close> is False and the decision is
  \<^verbatim>\<open>none\<close>, where the claim and the docstring (moisturizers below 19 degrees) give
  moisturizers; on a page that displays \<^verbatim>\<open>-40 C\<close> the reading is 40 and the sunscreens
  button is clicked.
\<close>

theorem category_decision_drops_sign:
  "get_current_temperature (Inr ''-20 C'') = Inr 20
   \<and> should_buy_moisturizers (Inr ''-20 C'') = Inr False
   \<and> navigate_to_appropriate_category (\<lambda>b. Inr ()) (Inr ''-20 C'') fresh_driver
       = (Inr ''none'', fresh_driver)
   \<and> get_current_temperature (Inr ''-40 C'') = Inr 40
   \<and> navigate_to_appropriate_category (\<lambda>b. Inr ()) (Inr ''-40 C'') fresh_driver
       = (Inr ''sunscreens'', \<lparr>frame = TopLevel, clicked = [SUNSCREENS_BUTTON]\<rparr>)"
  by (simp add: navigate_to_appropriate_category_def should_buy_moisturizers_def
        should_buy_sunscreens_def get_current_temperature_def re_search_digits_def
        isdigit_def py_int_def decimal_def click_element_def fresh_driver_def)

subsection \<open>Payment\<close>

lemma wait_until_no_success:
  "\<forall>r\<in>set rs. r \<noteq> Inr True \<Longrightarrow> \<exists>e. wait_until rs = Inl e"
  by (induction rs rule: wait_until.induct) auto

text \<open>
  C6. \<^verbatim>\<open>submit_payment\<close> always returns a boolean. When the form has been submitted and no
  poll within the bound of the wait sees a success message, it returns False.
\<close>

theorem submit_payment_definite_outcome:
  "(\<exists>b. fst (submit_payment env polls d) = Inr b)
   \<and> (fst (submit_payment_form env d) = Inr ()
        \<and> (\<forall>p\<in>set polls. success_poll p \<noteq> Inr True)
      \<longrightarrow> fst (submit_payment env polls d) = Inr False)"
proof -
  have a: "\<exists>b. fst (submit_payment env polls d) = Inr b"
    by (auto simp: submit_payment_def split: prod.splits sum.splits)
  have b: "fst (submit_payment env polls d) = Inr False"
    if "\<forall>p\<in>set polls. success_poll p \<noteq> Inr True"
  proof -
    from that have "\<forall>r\<in>set (map success_poll polls). r \<noteq> Inr True" by auto
    from wait_until_no_success [OF this] obtain e where
      "wait_until (map success_poll polls) = Inl e" by blast
    then show ?thesis by (auto simp: submit_payment_def split: prod.splits sum.splits)
  qed
  from a b show ?thesis by blast
qed

theorem submit_payment_definite_outcome_witness:
  "fst (submit_payment_form fallback_env fresh_driver) = Inr ()
   \<and> success_poll (Inl TimeoutException, Inl TimeoutException) = Inr False
   \<and> fst (submit_payment fallback_env
            [(Inl TimeoutException, Inl TimeoutException),
             (Inl TimeoutException, Inl TimeoutException)] fresh_driver) = Inr False"
proof -
  have h1: "fst (submit_payment_form fallback_env fresh_driver) = Inr ()"
    by (simp add: submit_payment_form_def submit_payment_form_try_def find_and_click_def
          fallback_env_def fresh_driver_def)
  have p: "success_poll (Inl TimeoutException, Inl TimeoutException) = Inr False"
    by (simp add: success_poll_def is_element_present_def)
  have h2: "\<forall>p\<in>set [(Inl TimeoutException, Inl TimeoutException),
                       (Inl TimeoutException, Inl TimeoutException)].
              success_poll p \<noteq> Inr True"
    using p by simp
  from submit_payment_definite_outcome [of fallback_env
      "[(Inl TimeoutException, Inl TimeoutException), (Inl TimeoutException, Inl TimeoutException)]"
      fresh_driver] h1 h2 p
  show ?thesis by blast
qed

text \<open>
  C7. Whatever the browser answers and whatever frame context the driver is in before the
  call, the driver is in the top-level context when \<^verbatim>\<open>submit_payment_form\<close> completes, be
  it by returning or by raising.
\<close>

theorem submit_payment_form_returns_to_top_level:
  "frame (snd (submit_payment_form env d)) = TopLevel"
  by (auto simp: submit_payment_form_def submit_payment_form_try_def find_and_click_def
        switch_to_default_content_def split: prod.splits sum.splits)

end
